theory Spec2Isabelle
  imports Main
begin

section \<open>JavaScript strings\<close>

text \<open>
  A JavaScript string is modelled as a HOL \<open>string\<close> whose characters are read as the
  code units U+0000 .. U+00FF. Code units above U+00FF are outside the model; the
  literals the program compares with (\<open>'rate limit'\<close>, \<open>'add'\<close>, \<open>'retrieve'\<close>, \<open>'-'\<close>,
  \<open>'Expense Categories:'\<close>) are ASCII.
\<close>

text \<open>\<open>WhiteSpace\<close> and \<open>LineTerminator\<close> of ECMAScript below U+0100: TAB, LF, VT, FF, CR,
  SPACE and NBSP. \<open>String.prototype.trim\<close> and the regular expression class \<open>\s\<close> both
  use this set.\<close>

definition isWhiteSpace :: "char \<Rightarrow> bool" where
  "isWhiteSpace c = (c \<in> {CHR 0x09, CHR 0x0A, CHR 0x0B, CHR 0x0C, CHR 0x0D, CHR 0x20, CHR 0xA0})"



definition trim :: "string \<Rightarrow> string" where
  "trim s = rev (dropWhile isWhiteSpace (rev (dropWhile isWhiteSpace s)))"

text \<open>\<open>toLowerCase\<close> below U+0100: \<open>A-Z\<close> and U+00C0 .. U+00DE (but the multiplication
  sign U+00D7) move up by 0x20; every other code unit stays.\<close>

definition lowerChar :: "char \<Rightarrow> char" where
  "lowerChar c =
     (let n = (of_char c :: nat) in
      if (0x41 \<le> n \<and> n \<le> 0x5A) \<or> (0xC0 \<le> n \<and> n \<le> 0xDE \<and> n \<noteq> 0xD7)
      then char_of (n + 0x20) else c)"

definition toLowerCase :: "string \<Rightarrow> string" where
  "toLowerCase s = map lowerChar s"

fun startsWith :: "string \<Rightarrow> string \<Rightarrow> bool" where
  "startsWith s [] = True"
| "startsWith [] (p # ps) = False"
| "startsWith (c # cs) (p # ps) = (c = p \<and> startsWith cs ps)"

text \<open>\<open>s.includes(sub)\<close>: \<open>sub\<close> occurs in \<open>s\<close> as a contiguous run.\<close>

fun includes_str :: "string \<Rightarrow> string \<Rightarrow> bool" where
  "includes_str [] sub = (sub = [])"
| "includes_str (c # cs) sub = (startsWith (c # cs) sub \<or> includes_str cs sub)"

section \<open>Errors\<close>

text \<open>A thrown value is a JavaScript \<open>Error\<close> object; the program reads only its
  \<open>message\<close>.\<close>

datatype js_error = Error (message: string)

section \<open>The retry wrapper \<open>withRetry\<close>\<close>

text \<open>
  \<^verbatim>\<open>
  async function withRetry(operation, maxRetries = 3) {
      for (let attempt = 1; attempt <= maxRetries; attempt++) {
          try {
              return await operation();
          } catch (error) {
              if (error.message.includes('rate limit') && attempt < maxRetries) {
                  const delay = Math.min(1000 * Math.pow(2, attempt), 60000);
                  await sleep(delay);
              } else {
                  throw error;
              }
          }
      }
  }
  \<close>
  \<open>operation\<close> is an effectful call whose outcome may differ from call to call. The
  wrapper calls it exactly once per attempt, so the operation is given as the function
  from the number of the call (1 for the first) to what that call does: \<open>Inr v\<close> when it
  resolves to \<open>v\<close>, \<open>Inl e\<close> when it throws \<open>e\<close>.

  A run of the wrapper is observed through how it completes, the delays it slept (in
  milliseconds, in order) and how many times it called the operation. When the loop body
  never runs (\<open>maxRetries < 1\<close>) the function falls off its end and resolves to
  \<open>undefined\<close>.
\<close>

datatype 'a completion = Returned 'a | Threw js_error | ReturnedUndefined

record 'a run =
  completion :: "'a completion"
  slept :: "nat list"
  calls :: nat

text \<open>\<open>Math.min(1000 * Math.pow(2, attempt), 60000)\<close>. The product is an exact double for
  every attempt where it is finite and \<open>Infinity\<close> beyond; the minimum with 60000 is the
  same as over the naturals.\<close>

definition delay :: "nat \<Rightarrow> nat" where
  "delay attempt = min (1000 * 2 ^ attempt) 60000"

definition signalsRateLimit :: "js_error \<Rightarrow> bool" where
  "signalsRateLimit error = includes_str (message error) ''rate limit''"

function withRetry_loop :: "(nat \<Rightarrow> js_error + 'a) \<Rightarrow> nat \<Rightarrow> nat \<Rightarrow> nat list \<Rightarrow> 'a run" where
  "withRetry_loop operation maxRetries attempt zs =
     (if attempt \<le> maxRetries then
        (case operation attempt of
           Inr v \<Rightarrow> \<lparr>completion = Returned v, slept = zs, calls = attempt\<rparr>
         | Inl error \<Rightarrow>
             if signalsRateLimit error \<and> attempt < maxRetries
             then withRetry_loop operation maxRetries (attempt + 1) (zs @ [delay attempt])
             else \<lparr>completion = Threw error, slept = zs, calls = attempt\<rparr>)
      else \<lparr>completion = ReturnedUndefined, slept = zs, calls = attempt - 1\<rparr>)"
  by pat_completeness auto
termination
  by (relation "measure (\<lambda>(operation, maxRetries, attempt, zs). Suc maxRetries - attempt)") auto

declare withRetry_loop.simps [simp del]

definition withRetry :: "(nat \<Rightarrow> js_error + 'a) \<Rightarrow> nat \<Rightarrow> 'a run" where
  "withRetry operation maxRetries = withRetry_loop operation maxRetries 1 []"

text \<open>The default parameter \<open>maxRetries = 3\<close>, as \<open>createTracedChain\<close> calls the wrapper.\<close>

definition withRetry_default :: "(nat \<Rightarrow> js_error + 'a) \<Rightarrow> 'a run" where
  "withRetry_default operation = withRetry operation 3"

text \<open>An operation that throws a rate-limit error on its first \<open>n - 1\<close> calls and resolves
  to \<open>v\<close> from call \<open>n\<close> on.\<close>

definition rateLimitedUntil :: "nat \<Rightarrow> 'a \<Rightarrow> nat \<Rightarrow> js_error + 'a" where
  "rateLimitedUntil n v k = (if k < n then Inl (Error ''429: rate limit reached'') else Inr v)"

definition failsRateLimited :: "(nat \<Rightarrow> js_error + 'a) \<Rightarrow> nat \<Rightarrow> bool" where
  "failsRateLimited operation k =
     (case operation k of Inl error \<Rightarrow> signalsRateLimit error | Inr v \<Rightarrow> False)"

section \<open>The category taxonomy (\<open>models/Expense.js\<close>)\<close>

text \<open>
  The object \<open>categories\<close> is used as a dictionary from category names to arrays of
  subcategory names. It is modelled by the list of its own properties. The order of the
  keys plays no part below; \<open>Object.keys\<close>, the \<open>enum\<close> of the schema and the lookup
  \<open>categoryData[c]\<close> see own properties (the inherited members of \<open>Object.prototype\<close>
  are not category names in the model).
\<close>

type_synonym taxonomy = "(string \<times> string list) list"











text \<open>\<open>Object.keys(categoryData)\<close> and \<open>categoryData[c] || []\<close>. An array is truthy, also
  the empty one, so the alternative \<open>[]\<close> is taken only when \<open>c\<close> is not a key. A missing
  category selects no list (the property names \<open>undefined\<close> and \<open>null\<close>, under which
  JavaScript would look then, are not category names in the model).\<close>

definition validCategories :: "taxonomy \<Rightarrow> string list" where
  "validCategories categoryData = map fst categoryData"

definition validSubcategories :: "taxonomy \<Rightarrow> string option \<Rightarrow> string list" where
  "validSubcategories categoryData c =
     (case c of None \<Rightarrow> []
      | Some name \<Rightarrow> (case map_of categoryData name of None \<Rightarrow> [] | Some subs \<Rightarrow> subs))"

text \<open>\<open>lines.join('\n')\<close>.\<close>

fun join_newline :: "string list \<Rightarrow> string" where
  "join_newline [] = []"
| "join_newline [l] = l"
| "join_newline (l # l' # ls) = l @ CHR 0x0A # join_newline (l' # ls)"

section \<open>The expense schema (\<open>models/Expense.js\<close>)\<close>

text \<open>
  \<open>expenseData\<close> is the object that \<open>JSON.parse\<close> made of the model's reply. A field is
  \<open>None\<close> when the property is missing or \<open>null\<close>; the other values are given as Mongoose
  casts them for the schema (\<open>String\<close> and \<open>[String]\<close>).
\<close>

record expenseData =
  json_amount :: "string option"
  json_category :: "string option"
  json_sub_category :: "string list option"
  json_response :: "string option"

text \<open>A document of the model \<open>Expense\<close>. \<open>ident\<close> is \<open>_id.toString()\<close>, \<open>createdAt\<close> the
  time in milliseconds.\<close>

record expense =
  ident :: string
  amount :: "string option"
  category :: "string option"
  subCategory :: "string list"
  response :: "string option"
  createdAt :: nat

text \<open>
  \<^verbatim>\<open>
  const expense = new Expense({
      amount: expenseData.amount,
      category: expenseData.category,
      subCategory: expenseData['sub-category'] || [],
      response: expenseData.response
  });
  \<close>
  The constructor assigns a fresh \<open>_id\<close> and the default \<open>createdAt = Date.now()\<close>; both
  are given.
\<close>

definition new_Expense :: "string \<Rightarrow> nat \<Rightarrow> expenseData \<Rightarrow> expense" where
  "new_Expense objectId now expenseData =
     \<lparr>ident = objectId,
      amount = json_amount expenseData,
      category = json_category expenseData,
      subCategory = (case json_sub_category expenseData of None \<Rightarrow> [] | Some subcats \<Rightarrow> subcats),
      response = json_response expenseData,
      createdAt = now\<rparr>"

text \<open>
  Validation is Mongoose's, driven by the schema of the source. The validators of the
  library are modelled as its documentation gives them:
  \<^item> \<open>required\<close> on a \<open>String\<close> path holds for a string of positive length;
  \<^item> \<open>required\<close> on an array path holds for every array, also the empty one (Mongoose 5
    and later);
  \<^item> \<open>enum\<close> holds when the value is one of the listed strings; the schema passes the
    list as the arguments of \<open>enum\<close>, and with an empty list no validator is installed;
  \<^item> validators of one path run in order and the first that fails is reported.
  A failure is recorded as the path and the kind of the validator.
\<close>

datatype validator_kind = Required | Enum | UserDefined

type_synonym validation_failure = "string \<times> validator_kind"

definition requiredString :: "string option \<Rightarrow> bool" where
  "requiredString v = (case v of None \<Rightarrow> False | Some s \<Rightarrow> s \<noteq> [])"

definition requiredArray :: "string list \<Rightarrow> bool" where
  "requiredArray v = True"

text \<open>
  \<^verbatim>\<open>
  validator: function(subcats) {
      const validSubcategories = categoryData[this.category] || [];
      return subcats.every(subcat => validSubcategories.includes(subcat));
  }
  \<close>
\<close>

definition validator :: "taxonomy \<Rightarrow> expense \<Rightarrow> string list \<Rightarrow> bool" where
  "validator categoryData this subcats =
     list_all (\<lambda>subcat. subcat \<in> set (validSubcategories categoryData (category this))) subcats"

definition validate :: "taxonomy \<Rightarrow> expense \<Rightarrow> validation_failure list" where
  "validate categoryData doc =
     (if requiredString (amount doc) then [] else [(''amount'', Required)]) @
     (if \<not> requiredString (category doc) then [(''category'', Required)]
      else if validCategories categoryData = [] then []
      else if the (category doc) \<in> set (validCategories categoryData) then []
      else [(''category'', Enum)]) @
     (if \<not> requiredArray (subCategory doc) then [(''subCategory'', Required)]
      else if validator categoryData doc (subCategory doc) then []
      else [(''subCategory'', UserDefined)]) @
     (if requiredString (response doc) then [] else [(''response'', Required)])"

text \<open>What a statement of \<open>processUserInput\<close> can throw: an \<open>Error\<close>, or the
  \<open>ValidationError\<close> of Mongoose with its failures.\<close>

datatype exception = Raised js_error | ValidationError "validation_failure list"

text \<open>
  \<open>expense.save()\<close> on the collection \<open>db\<close>: validation runs first, and only a valid
  document is written. \<open>write\<close> is the outcome of the write to MongoDB itself
  (\<open>Some e\<close> when the connection fails).
\<close>

definition save :: "taxonomy \<Rightarrow> js_error option \<Rightarrow> expense list \<Rightarrow> expense
    \<Rightarrow> (exception + unit) \<times> expense list" where
  "save categoryData write db doc =
     (if validate categoryData doc \<noteq> [] then (Inl (ValidationError (validate categoryData doc)), db)
      else (case write of
              Some e \<Rightarrow> (Inl (Raised e), db)
            | None \<Rightarrow> (Inr (), db @ [doc])))"

section \<open>The vector store service (\<open>services/vectorStore.js\<close>)\<close>

text \<open>
  A document of the index has a text and a metadata object (or none). The values of the
  metadata the program writes are booleans, strings and arrays of strings.
\<close>

datatype jsval = JUndefined | JNull | JBool bool | JNum int | JStr string | JStrs "string list"

fun truthy :: "jsval \<Rightarrow> bool" where
  "truthy JUndefined = False"
| "truthy JNull = False"
| "truthy (JBool b) = b"
| "truthy (JNum n) = (n \<noteq> 0)"
| "truthy (JStr s) = (s \<noteq> [])"
| "truthy (JStrs xs) = True"

record document =
  pageContent :: string
  metadata :: "(string \<times> jsval) list option"

text \<open>\<open>doc.metadata?.initialization\<close>.\<close>

definition initialization :: "document \<Rightarrow> jsval" where
  "initialization doc =
     (case metadata doc of
        None \<Rightarrow> JUndefined
      | Some m \<Rightarrow> (case map_of m ''initialization'' of None \<Rightarrow> JUndefined | Some v \<Rightarrow> v))"

definition dummyDoc :: document where
  "dummyDoc = \<lparr>pageContent = ''Initialization document'',
               metadata = Some [(''initialization'', JBool True)]\<rparr>"

text \<open>
  The index library (HNSWLib) is outside the repository. The content of an index is
  modelled by the documents it holds: \<open>fromDocuments\<close> gives an index of the documents
  passed, \<open>addDocuments\<close> appends, \<open>save\<close> writes the content to the directory and \<open>load\<close>
  gives an index of what was written. Whether each call of the library throws, and what
  the nearest neighbour search answers, is the environment's:
\<close>

type_synonym index = "document list"

record hnsw_env =
  load :: "index \<Rightarrow> js_error option"
  fromDocuments :: "document list \<Rightarrow> js_error option"
  save_index :: "index \<Rightarrow> js_error option"
  addDocuments :: "index \<Rightarrow> document list \<Rightarrow> js_error option"
  search :: "index \<Rightarrow> string \<Rightarrow> nat \<Rightarrow> js_error + document list"

text \<open>
  \<open>HNSWLib.load\<close> and \<open>HNSWLib.fromDocuments\<close> each construct a new object. A handle is
  such an object: its identity (\<open>address\<close>) and the documents it holds. Two handles with
  the same documents are the same object only when their addresses agree.
\<close>

record handle =
  address :: nat
  documents :: index

text \<open>
  The state: the field \<open>this.vectorStore\<close> (\<open>None\<close> for \<open>null\<close>), the saved index in the
  directory \<open>vector_store\<close> (\<open>None\<close> when the file \<open>hnswlib.index\<close> does not exist) and
  the number of index objects constructed so far, which is the address of the next one.
\<close>

record store_state =
  vectorStore :: "handle option"
  indexFile :: "index option"
  allocated :: nat

text \<open>
  \<^verbatim>\<open>
  async init() {
      try {
          if (existsSync(VECTOR_INDEX_PATH)) {
              this.vectorStore = await HNSWLib.load(VECTOR_STORE_PATH, this.embeddings);
          } else {
              const dummyDoc = new Document({
                  pageContent: "Initialization document",
                  metadata: { initialization: true }
              });
              this.vectorStore = await HNSWLib.fromDocuments([dummyDoc], this.embeddings);
              await this.vectorStore.save(VECTOR_STORE_PATH);
          }
      } catch (error) {
          console.error("Error initializing vector store:", error);
          throw error;
      }
  }
  \<close>
  There is no guard on \<open>this.vectorStore\<close>: every call that finds the file loads it
  and assigns the new object. The field is assigned before \<open>save\<close> runs, so it stays
  assigned when \<open>save\<close> throws. Output to the console is not part of the model.
\<close>

definition attach :: "index \<Rightarrow> store_state \<Rightarrow> store_state" where
  "attach content s =
     s\<lparr>vectorStore := Some \<lparr>address = allocated s, documents = content\<rparr>,
       allocated := Suc (allocated s)\<rparr>"

definition init :: "hnsw_env \<Rightarrow> store_state \<Rightarrow> (js_error + unit) \<times> store_state" where
  "init env s =
     (case indexFile s of
        Some saved \<Rightarrow>
          (case load env saved of
             Some error \<Rightarrow> (Inl error, s)
           | None \<Rightarrow> (Inr (), attach saved s))
      | None \<Rightarrow>
          (case fromDocuments env [dummyDoc] of
             Some error \<Rightarrow> (Inl error, s)
           | None \<Rightarrow>
               (case save_index env [dummyDoc] of
                  Some error \<Rightarrow> (Inl error, attach [dummyDoc] s)
                | None \<Rightarrow> (Inr (), (attach [dummyDoc] s)\<lparr>indexFile := Some [dummyDoc]\<rparr>))))"

text \<open>
  \<^verbatim>\<open>
  async similaritySearch(query, k = 5) {
      if (!this.vectorStore) {
          await this.init();
      }
      try {
          const results = await this.vectorStore.similaritySearch(query, k);
          return results.filter(doc => !doc.metadata?.initialization);
      } catch (error) {
          console.error("Error during similarity search:", error);
          return [];
      }
  }
  \<close>
  The call of \<open>init\<close> is outside the \<open>try\<close>. Were \<open>this.vectorStore\<close> still \<open>null\<close> inside
  the \<open>try\<close>, the \<open>TypeError\<close> of the member access would be caught there as well.
\<close>

definition similaritySearch :: "hnsw_env \<Rightarrow> store_state \<Rightarrow> string \<Rightarrow> nat
    \<Rightarrow> (js_error + document list) \<times> store_state" where
  "similaritySearch env s query k =
     (let (r, s1) = (if vectorStore s = None then init env s else (Inr (), s)) in
      case r of
        Inl error \<Rightarrow> (Inl error, s1)
      | Inr u \<Rightarrow>
          (case vectorStore s1 of
             None \<Rightarrow> (Inr [], s1)
           | Some h \<Rightarrow>
               (case search env (documents h) query k of
                  Inl error \<Rightarrow> (Inr [], s1)
                | Inr results \<Rightarrow>
                    (Inr (filter (\<lambda>doc. \<not> truthy (initialization doc)) results), s1))))"

text \<open>The default parameter \<open>k = 5\<close>.\<close>

definition similaritySearch_default :: "hnsw_env \<Rightarrow> store_state \<Rightarrow> string
    \<Rightarrow> (js_error + document list) \<times> store_state" where
  "similaritySearch_default env s query = similaritySearch env s query 5"

text \<open>
  \<open>addExpense\<close> builds the document of an expense, initialises the store when needed,
  adds the document to the attached index (the object is changed in place) and saves
  the index. The text of the document depends on the locale of the host
  (\<open>toLocaleDateString\<close>), so the rendering of the text and of the ISO date are given as
  functions. The text starts with \<open>expense.category.toUpperCase()\<close>: without a category
  this member access throws a \<open>TypeError\<close> before the store is touched.
\<close>

record render_env =
  textContent :: "expense \<Rightarrow> string"
  toISOString :: "nat \<Rightarrow> string"

definition jsString :: "string option \<Rightarrow> jsval" where
  "jsString v = (case v of None \<Rightarrow> JUndefined | Some s \<Rightarrow> JStr s)"

definition expenseDocument :: "render_env \<Rightarrow> expense \<Rightarrow> document" where
  "expenseDocument renv expense =
     \<lparr>pageContent = textContent renv expense,
      metadata = Some [(''id'', JStr (ident expense)),
                       (''amount'', jsString (amount expense)),
                       (''category'', jsString (category expense)),
                       (''subCategory'', JStrs (subCategory expense)),
                       (''date'', JStr (toISOString renv (createdAt expense)))]\<rparr>"

definition nullAccess :: js_error where
  "nullAccess = Error ''Cannot read properties of null (reading 'addDocuments')''"

definition undefinedAccess :: js_error where
  "undefinedAccess = Error ''Cannot read properties of undefined (reading 'toUpperCase')''"

definition addExpense :: "hnsw_env \<Rightarrow> render_env \<Rightarrow> store_state \<Rightarrow> expense
    \<Rightarrow> (js_error + bool) \<times> store_state" where
  "addExpense env renv s expense =
     (if category expense = None then (Inl undefinedAccess, s)
      else
       (let doc = expenseDocument renv expense;
            (r, s1) = (if vectorStore s = None then init env s else (Inr (), s)) in
        case r of
          Inl error \<Rightarrow> (Inl error, s1)
        | Inr u \<Rightarrow>
            (case vectorStore s1 of
               None \<Rightarrow> (Inl nullAccess, s1)
             | Some h \<Rightarrow>
                 (case addDocuments env (documents h) [doc] of
                    Some error \<Rightarrow> (Inl error, s1)
                  | None \<Rightarrow>
                      (let h' = h\<lparr>documents := documents h @ [doc]\<rparr> in
                       case save_index env (documents h') of
                         Some error \<Rightarrow> (Inl error, s1\<lparr>vectorStore := Some h'\<rparr>)
                       | None \<Rightarrow>
                           (Inr True, s1\<lparr>vectorStore := Some h',
                                         indexFile := Some (documents h')\<rparr>))))))"

section \<open>The request pipeline \<open>processUserInput\<close>\<close>

text \<open>
  The calls of the language model go through \<open>withRetry\<close>; what each chain finally
  answers (its \<open>text\<close>, or the error it throws) is the environment's, as is the result of
  \<open>JSON.parse\<close> on the reply, the fresh \<open>_id\<close>, the clock and the outcome of the write to
  MongoDB.
\<close>

record llm_env =
  intentChain :: "string \<Rightarrow> js_error + string"
  expenseChain :: "string \<Rightarrow> js_error + string"
  retrievalChain :: "string \<Rightarrow> string \<Rightarrow> js_error + string"
  JSON_parse :: "string \<Rightarrow> js_error + expenseData"
  objectId :: string
  now :: nat
  mongoWrite :: "js_error option"

record app_state =
  db :: "expense list"
  store :: store_state

text \<open>What one call of \<open>processUserInput\<close> reports on the console. The function itself
  always returns normally: its body is one \<open>try\<close> whose \<open>catch\<close> prints the message.\<close>

datatype report =
    ExpenseSaved expense
  | NoMatchingExpenses
  | AnalysisShown string
  | ErrorShown exception
  | NothingDone

text \<open>
  \<^verbatim>\<open>
  case 'add': {
      const analysis = await expenseChain.call({ text: input });
      const expenseData = JSON.parse(analysis.text);
      const expense = new Expense({ ... });
      await expense.save();
      await vectorStore.addExpense(expense);
      ...
      break;
  }
  \<close>
\<close>

definition addCase :: "taxonomy \<Rightarrow> llm_env \<Rightarrow> hnsw_env \<Rightarrow> render_env \<Rightarrow> string \<Rightarrow> app_state
    \<Rightarrow> report \<times> app_state" where
  "addCase categoryData lenv env renv input st =
     (case expenseChain lenv input of
        Inl error \<Rightarrow> (ErrorShown (Raised error), st)
      | Inr analysis \<Rightarrow>
          (case JSON_parse lenv analysis of
             Inl error \<Rightarrow> (ErrorShown (Raised error), st)
           | Inr expenseData \<Rightarrow>
               (let expense = new_Expense (objectId lenv) (now lenv) expenseData;
                    (saved, db') = save categoryData (mongoWrite lenv) (db st) expense in
                case saved of
                  Inl x \<Rightarrow> (ErrorShown x, st\<lparr>db := db'\<rparr>)
                | Inr u \<Rightarrow>
                    (let (added, store') = addExpense env renv (store st) expense in
                     case added of
                       Inl error \<Rightarrow> (ErrorShown (Raised error), st\<lparr>db := db', store := store'\<rparr>)
                     | Inr b \<Rightarrow> (ExpenseSaved expense, st\<lparr>db := db', store := store'\<rparr>)))))"

text \<open>
  \<^verbatim>\<open>
  case 'retrieve': {
      const results = await vectorStore.similaritySearch(input);
      if (results.length === 0) { console.log('No matching expenses found.'); break; }
      const expensesText = results.map(r => r.pageContent).join('\n');
      const analysis = await retrievalChain.call({ query: input, expenses: expensesText });
      console.log(analysis.text);
      break;
  }
  \<close>
\<close>

definition retrieveCase :: "llm_env \<Rightarrow> hnsw_env \<Rightarrow> string \<Rightarrow> app_state \<Rightarrow> report \<times> app_state" where
  "retrieveCase lenv env input st =
     (let (found, store') = similaritySearch_default env (store st) input in
      case found of
        Inl error \<Rightarrow> (ErrorShown (Raised error), st\<lparr>store := store'\<rparr>)
      | Inr results \<Rightarrow>
          if length results = 0 then (NoMatchingExpenses, st\<lparr>store := store'\<rparr>)
          else (case retrievalChain lenv input (join_newline (map pageContent results)) of
                  Inl error \<Rightarrow> (ErrorShown (Raised error), st\<lparr>store := store'\<rparr>)
                | Inr analysis \<Rightarrow> (AnalysisShown analysis, st\<lparr>store := store'\<rparr>)))"

text \<open>
  \<^verbatim>\<open>
  async function processUserInput(input) {
      try {
          const intentResult = await intentChain.call({ text: input });
          const intent = intentResult.text.toLowerCase().trim();
          switch (intent) {
              case 'add': { ... }
              case 'retrieve': { ... }
          }
      } catch (error) {
          console.error('Error:', error.message);
      }
  }
  \<close>
  The \<open>switch\<close> has no \<open>default\<close> case.
\<close>

definition processUserInput :: "taxonomy \<Rightarrow> llm_env \<Rightarrow> hnsw_env \<Rightarrow> render_env \<Rightarrow> string
    \<Rightarrow> app_state \<Rightarrow> report \<times> app_state" where
  "processUserInput categoryData lenv env renv input st =
     (case intentChain lenv input of
        Inl error \<Rightarrow> (ErrorShown (Raised error), st)
      | Inr intentText \<Rightarrow>
          (let intent = trim (toLowerCase intentText) in
           if intent = ''add'' then addCase categoryData lenv env renv input st
           else if intent = ''retrieve'' then retrieveCase lenv env input st
           else (NothingDone, st)))"

section \<open>Sample data\<close>

text \<open>The number of documents of an index that carry the \<open>initialization\<close> flag.\<close>

definition sentinels :: "index \<Rightarrow> nat" where
  "sentinels h = length (filter (\<lambda>doc. truthy (initialization doc)) h)"

text \<open>An index library that never throws and answers a search with the first \<open>k\<close>
  documents of the index, and two that fail in one call.\<close>

definition workingIndex :: hnsw_env where
  "workingIndex =
     \<lparr>load = (\<lambda>h. None), fromDocuments = (\<lambda>docs. None), save_index = (\<lambda>h. None),
      addDocuments = (\<lambda>h docs. None), search = (\<lambda>h query k. Inr (take k h))\<rparr>"

definition brokenSearch :: hnsw_env where
  "brokenSearch = workingIndex\<lparr>search := (\<lambda>h query k. Inl (Error ''index is corrupted''))\<rparr>"

definition brokenLoad :: hnsw_env where
  "brokenLoad = workingIndex\<lparr>load := (\<lambda>h. Some (Error ''cannot read hnswlib.index''))\<rparr>"

definition lunchDoc :: document where
  "lunchDoc = \<lparr>pageContent = ''[FOOD] Expense of 500 for lunch'',
               metadata = Some [(''id'', JStr ''65f0c0ffee''), (''amount'', JStr ''500''),
                                (''category'', JStr ''Food'')]\<rparr>"

definition emptyStore :: store_state where
  "emptyStore = \<lparr>vectorStore = None, indexFile = None, allocated = 0\<rparr>"

definition seededStore :: store_state where
  "seededStore = \<lparr>vectorStore = Some \<lparr>address = 0, documents = [dummyDoc]\<rparr>,
                  indexFile = Some [dummyDoc], allocated = 1\<rparr>"

definition reloadedStore :: store_state where
  "reloadedStore = \<lparr>vectorStore = Some \<lparr>address = 1, documents = [dummyDoc]\<rparr>,
                    indexFile = Some [dummyDoc], allocated = 2\<rparr>"

definition lunchStore :: store_state where
  "lunchStore = \<lparr>vectorStore = Some \<lparr>address = 0, documents = [dummyDoc, lunchDoc]\<rparr>,
                 indexFile = Some [dummyDoc, lunchDoc], allocated = 1\<rparr>"

text \<open>
  The precondition of promotion in the words of the specification: the category is a
  key of the taxonomy and every subcategory is a member of the taxonomy's entry for it.
\<close>

definition categoryKnown :: "taxonomy \<Rightarrow> expense \<Rightarrow> bool" where
  "categoryKnown taxonomy candidate =
     (case category candidate of None \<Rightarrow> False | Some c \<Rightarrow> map_of taxonomy c \<noteq> None)"

definition inTaxonomy :: "taxonomy \<Rightarrow> expense \<Rightarrow> bool" where
  "inTaxonomy taxonomy candidate =
     (case category candidate of
        None \<Rightarrow> False
      | Some c \<Rightarrow>
          (case map_of taxonomy c of
             None \<Rightarrow> False
           | Some subs \<Rightarrow> list_all (\<lambda>x. x \<in> set subs) (subCategory candidate)))"

definition sampleTaxonomy :: taxonomy where
  "sampleTaxonomy =
     [(''Food'', [''Groceries'', ''Dining out'', ''Snacks'']),
      (''Transportation'', [''Fuel'', ''Public transport'', ''Vehicle maintenance''])]"

definition lunch :: expense where
  "lunch = \<lparr>ident = ''65f0c0ffee'', amount = Some ''500'', category = Some ''Food'',
            subCategory = [''Dining out''], response = Some ''Lunch for 500'', createdAt = 0\<rparr>"

text \<open>A reply of the model without the field \<open>sub-category\<close>.\<close>

definition noSubcategory :: expenseData where
  "noSubcategory = \<lparr>json_amount = Some ''120'', json_category = Some ''Transportation'',
                    json_sub_category = None, json_response = Some ''Bus ticket for 120''\<rparr>"

definition sampleLlm :: "string \<Rightarrow> expenseData \<Rightarrow> llm_env" where
  "sampleLlm intentReply parsed =
     \<lparr>intentChain = (\<lambda>input. Inr intentReply),
      expenseChain = (\<lambda>input. Inr ''{}''),
      retrievalChain = (\<lambda>query expenses. Inr expenses),
      JSON_parse = (\<lambda>reply. Inr parsed),
      objectId = ''65f0c0ffee'',
      now = 0,
      mongoWrite = None\<rparr>"

definition sampleRender :: render_env where
  "sampleRender = \<lparr>textContent = (\<lambda>e. ''[EXPENSE]''),
                   toISOString = (\<lambda>t. ''1970-01-01T00:00:00.000Z'')\<rparr>"

definition freshApp :: app_state where
  "freshApp = \<lparr>db = [], store = seededStore\<rparr>"


section \<open>Properties of the retry wrapper\<close>

lemma delay_le_cap: "delay k \<le> 60000"
  by (simp add: delay_def)

lemma delay_mono: "i \<le> j \<Longrightarrow> delay i \<le> delay j"
  unfolding delay_def by (rule min.mono) (simp_all add: power_increasing)

lemma delay_at_cap: "6 \<le> k \<Longrightarrow> delay k = 60000"
proof -
  assume "6 \<le> k"
  then have "(2::nat) ^ 6 \<le> 2 ^ k" by (intro power_increasing) simp_all
  then show ?thesis by (simp add: delay_def)
qed

lemma delay_strict: "i < j \<Longrightarrow> j \<le> 6 \<Longrightarrow> delay i < delay j"
proof -
  assume ij: "i < j" and j: "j \<le> 6"
  have i5: "i \<le> 5" using ij j by simp
  have "(2::nat) ^ i < 2 ^ j" using ij by (simp add: power_strict_increasing)
  then have a: "(1000::nat) * 2 ^ i < 1000 * 2 ^ j" by simp
  have "(2::nat) ^ i \<le> 2 ^ 5" using i5 by (intro power_increasing) simp_all
  then have b: "(1000::nat) * 2 ^ i < 60000" by simp
  show ?thesis using a b by (simp add: delay_def)
qed

lemma sorted_delays: "sorted (map delay [a..<n])"
  by (simp add: sorted_map sorted_wrt_iff_nth_less delay_mono)

lemma strict_delays_iff: "sorted_wrt (<) (map delay [1..<n]) \<longleftrightarrow> n \<le> 7"
proof
  assume s: "sorted_wrt (<) (map delay [1..<n])"
  show "n \<le> 7"
  proof (rule ccontr)
    assume "\<not> n \<le> 7"
    then have n: "8 \<le> n" by simp
    have "length (map delay [1..<n]) > 6" using n by simp
    then have "map delay [1..<n] ! 5 < map delay [1..<n] ! 6"
      using s sorted_wrt_nth_less [of "(<)" "map delay [1..<n]" 5 6] by simp
    then have "delay 6 < delay 7" using n by simp
    then show False by (simp add: delay_at_cap)
  qed
next
  assume "n \<le> 7"
  then show "sorted_wrt (<) (map delay [1..<n])"
    by (simp add: sorted_wrt_map sorted_wrt_iff_nth_less delay_strict)
qed

lemma withRetry_loop_succeeds:
  assumes "a \<le> n" and "n \<le> m"
    and "\<forall>k. a \<le> k \<and> k < n \<longrightarrow> failsRateLimited operation k"
    and "operation n = Inr v"
  shows "withRetry_loop operation m a zs =
           \<lparr>completion = Returned v, slept = zs @ map delay [a..<n], calls = n\<rparr>"
  using assms
proof (induction "n - a" arbitrary: a zs)
  case 0
  then have "a = n" by simp
  then show ?case using 0 by (simp add: withRetry_loop.simps)
next
  case (Suc d)
  then have lt: "a < n" by simp
  then have "failsRateLimited operation a" using Suc.prems by auto
  then obtain e where e: "operation a = Inl e" "signalsRateLimit e"
    by (auto simp: failsRateLimited_def split: sum.splits)
  have "withRetry_loop operation m (a + 1) (zs @ [delay a]) =
          \<lparr>completion = Returned v, slept = (zs @ [delay a]) @ map delay [a + 1..<n], calls = n\<rparr>"
    using Suc by (intro Suc.hyps) auto
  moreover have "[a..<n] = a # [a + 1..<n]" using lt by (simp add: upt_conv_Cons)
  ultimately show ?case
    using e lt Suc.prems by (subst withRetry_loop.simps) simp
qed

text \<open>
  Claim C1, as the code has it. When the operation throws a rate-limit error on attempts
  \<open>1 .. n - 1\<close> and resolves to \<open>v\<close> on attempt \<open>n\<close>, with \<open>1 \<le> n \<le> maxRetries\<close>, the
  wrapper returns \<open>v\<close> after exactly \<open>n\<close> calls and sleeps \<open>min (1000 * 2 ^ attempt) 60000\<close>
  milliseconds after each failed attempt. Every delay is at most 60 seconds and the
  delays never decrease; they are strictly increasing exactly when \<open>n \<le> 7\<close>, since from
  attempt 6 on every delay is the cap of 60 seconds.
\<close>

theorem withRetry_succeeds_after_rate_limits:
  assumes "1 \<le> n" and "n \<le> maxRetries"
    and "\<forall>k. 1 \<le> k \<and> k < n \<longrightarrow> failsRateLimited operation k"
    and "operation n = Inr v"
  shows "completion (withRetry operation maxRetries) = Returned v
       \<and> calls (withRetry operation maxRetries) = n
       \<and> slept (withRetry operation maxRetries) = map delay [1..<n]
       \<and> (\<forall>d \<in> set (slept (withRetry operation maxRetries)). d \<le> 60000)
       \<and> sorted (slept (withRetry operation maxRetries))
       \<and> (sorted_wrt (<) (slept (withRetry operation maxRetries)) \<longleftrightarrow> n \<le> 7)"
proof -
  have run: "withRetry operation maxRetries =
      \<lparr>completion = Returned v, slept = map delay [1..<n], calls = n\<rparr>"
    unfolding withRetry_def
    using withRetry_loop_succeeds [OF assms(1) assms(2) assms(3) assms(4), of "[]"] by simp
  have cap: "\<forall>d \<in> set (map delay [1..<n]). d \<le> 60000"
    by (auto simp: delay_le_cap)
  show ?thesis
    unfolding run using cap sorted_delays [of 1 n] strict_delays_iff [of n] by simp
qed

theorem withRetry_succeeds_after_rate_limits_witness:
  "(1::nat) \<le> 3 \<and> (3::nat) \<le> 3
   \<and> list_all (failsRateLimited (rateLimitedUntil 3 (7::nat))) [1..<3]
   \<and> rateLimitedUntil 3 (7::nat) 3 = Inr 7
   \<and> completion (withRetry (rateLimitedUntil 3 (7::nat)) 3) = Returned 7
   \<and> calls (withRetry (rateLimitedUntil 3 (7::nat)) 3) = 3
   \<and> slept (withRetry (rateLimitedUntil 3 (7::nat)) 3) = [2000, 4000]
   \<and> sorted_wrt (<) (slept (withRetry (rateLimitedUntil 3 (7::nat)) 3))"
proof -
  have h1: "(1::nat) \<le> 3" and h2: "(3::nat) \<le> 3" by simp_all
  have h3: "\<forall>k. 1 \<le> k \<and> k < 3 \<longrightarrow> failsRateLimited (rateLimitedUntil 3 (7::nat)) k"
    by (simp add: failsRateLimited_def rateLimitedUntil_def signalsRateLimit_def)
  have h4: "rateLimitedUntil 3 (7::nat) 3 = Inr 7"
    by (simp add: rateLimitedUntil_def)
  have d: "map delay [1..<3] = [2000, 4000]"
    by (simp add: upt_rec delay_def)
  have h3': "list_all (failsRateLimited (rateLimitedUntil 3 (7::nat))) [1..<3]"
    by (simp add: failsRateLimited_def rateLimitedUntil_def signalsRateLimit_def upt_rec)
  show ?thesis
    using h3' h4 d withRetry_succeeds_after_rate_limits [OF h1 h2 h3 h4] by simp
qed

text \<open>
  Claim C1 as the specification states it asks for strictly increasing delays for every
  \<open>n \<le> maxAttempts\<close>. With \<open>maxRetries = 8\<close> and an operation that is rate limited seven
  times and then succeeds, the wrapper returns the value, and sleeps 60 seconds twice in
  a row.
\<close>

theorem withRetry_delays_not_strictly_increasing:
  "list_all (failsRateLimited (rateLimitedUntil 8 (7::nat))) [1..<8]
   \<and> rateLimitedUntil 8 (7::nat) 8 = Inr 7
   \<and> completion (withRetry (rateLimitedUntil 8 (7::nat)) 8) = Returned 7
   \<and> slept (withRetry (rateLimitedUntil 8 (7::nat)) 8)
       = [2000, 4000, 8000, 16000, 32000, 60000, 60000]
   \<and> \<not> sorted_wrt (<) (slept (withRetry (rateLimitedUntil 8 (7::nat)) 8))"
  by (simp add: withRetry_def withRetry_loop.simps rateLimitedUntil_def failsRateLimited_def
      signalsRateLimit_def delay_def upt_rec)

text \<open>
  Claim C2. When the first attempt throws an error whose message does not contain
  \<open>rate limit\<close>, the wrapper throws that same error after this one call and without
  sleeping, whatever \<open>maxRetries \<ge> 1\<close> is.
\<close>

theorem withRetry_propagates_other_errors:
  assumes "1 \<le> maxRetries" and "operation 1 = Inl e" and "\<not> signalsRateLimit e"
  shows "withRetry operation maxRetries = \<lparr>completion = Threw e, slept = [], calls = 1\<rparr>"
  using assms unfolding withRetry_def by (subst withRetry_loop.simps) simp

theorem withRetry_propagates_other_errors_witness:
  "(1::nat) \<le> 3 \<and> (\<lambda>k. Inl (Error ''401: invalid api key'')) (1::nat) = (Inl (Error ''401: invalid api key'') :: js_error + nat)
   \<and> \<not> signalsRateLimit (Error ''401: invalid api key'')
   \<and> withRetry (\<lambda>k. Inl (Error ''401: invalid api key'') :: js_error + nat) 3
       = \<lparr>completion = Threw (Error ''401: invalid api key''), slept = [], calls = 1\<rparr>"
proof -
  have h1: "(1::nat) \<le> 3" by simp
  have h2: "(\<lambda>k. Inl (Error ''401: invalid api key'') :: js_error + nat) (1::nat)
              = Inl (Error ''401: invalid api key'')" by simp
  have h3: "\<not> signalsRateLimit (Error ''401: invalid api key'')"
    by (simp add: signalsRateLimit_def)
  show ?thesis
    using h3 withRetry_propagates_other_errors [OF h1 h2 h3] by simp
qed

section \<open>Properties of the vector store service\<close>

text \<open>
  Claim C4. Whatever the query, \<open>k\<close>, the state of the service and the answers of the
  index library are: when \<open>similaritySearch\<close> returns a list, no document of the list
  has a truthy \<open>metadata.initialization\<close>; in particular the sentinel document is not in
  the list.
\<close>

theorem similaritySearch_excludes_sentinel:
  assumes "fst (similaritySearch env s query k) = Inr docs"
  shows "(\<forall>d \<in> set docs. \<not> truthy (initialization d)) \<and> dummyDoc \<notin> set docs"
proof -
  have flagged: "truthy (initialization dummyDoc)"
    by (simp add: initialization_def dummyDoc_def)
  have "\<forall>d \<in> set docs. \<not> truthy (initialization d)"
    using assms
    by (auto simp: similaritySearch_def Let_def
        split: prod.splits sum.splits option.splits if_splits)
  then show ?thesis using flagged by blast
qed

theorem similaritySearch_excludes_sentinel_witness:
  "fst (similaritySearch workingIndex lunchStore ''food expenses'' 5) = Inr [lunchDoc]
   \<and> \<not> truthy (initialization lunchDoc) \<and> dummyDoc \<notin> set [lunchDoc]"
proof -
  have h: "fst (similaritySearch workingIndex lunchStore ''food expenses'' 5) = Inr [lunchDoc]"
    by (simp add: similaritySearch_def workingIndex_def lunchStore_def initialization_def
        dummyDoc_def lunchDoc_def)
  show ?thesis
    using h similaritySearch_excludes_sentinel [OF h] by simp
qed

text \<open>
  Claim C5. When the store is attached (it was before the call, or the lazy
  initialisation of this call succeeds) and the nearest-neighbour search of the index
  throws, \<open>similaritySearch\<close> does not throw: it returns the empty list.
\<close>

theorem similaritySearch_degrades_to_empty:
  assumes "vectorStore s = Some h \<or>
           (vectorStore s = None \<and> fst (init env s) = Inr ()
            \<and> vectorStore (snd (init env s)) = Some h)"
    and "search env (documents h) query k = Inl error"
  shows "fst (similaritySearch env s query k) = Inr []"
  using assms
  by (auto simp: similaritySearch_def Let_def split: prod.splits sum.splits option.splits)

theorem similaritySearch_degrades_to_empty_witness:
  "vectorStore lunchStore = Some \<lparr>address = 0, documents = [dummyDoc, lunchDoc]\<rparr>
   \<and> search brokenSearch [dummyDoc, lunchDoc] ''food expenses'' 5 = Inl (Error ''index is corrupted'')
   \<and> fst (similaritySearch brokenSearch lunchStore ''food expenses'' 5) = Inr []"
proof -
  have h1: "vectorStore lunchStore = Some \<lparr>address = 0, documents = [dummyDoc, lunchDoc]\<rparr> \<or>
           (vectorStore lunchStore = None \<and> fst (init brokenSearch lunchStore) = Inr ()
            \<and> vectorStore (snd (init brokenSearch lunchStore))
                = Some \<lparr>address = 0, documents = [dummyDoc, lunchDoc]\<rparr>)"
    by (simp add: lunchStore_def)
  have h2: "search brokenSearch (documents \<lparr>address = 0, documents = [dummyDoc, lunchDoc]\<rparr>)
              ''food expenses'' 5 = Inl (Error ''index is corrupted'')"
    by (simp add: brokenSearch_def workingIndex_def)
  have h2': "search brokenSearch [dummyDoc, lunchDoc] ''food expenses'' 5
              = Inl (Error ''index is corrupted'')"
    using h2 by simp
  show ?thesis
    using h2' similaritySearch_degrades_to_empty [OF h1 h2] by (simp add: lunchStore_def)
qed

text \<open>
  Claim C10. When the store is not attached and the lazy initialisation inside
  \<open>similaritySearch\<close> throws, \<open>similaritySearch\<close> throws that error, whatever the search
  itself would have answered.
\<close>

theorem similaritySearch_propagates_init_error:
  assumes "vectorStore s = None" and "fst (init env s) = Inl error"
  shows "fst (similaritySearch env s query k) = Inl error"
  using assms
  by (auto simp: similaritySearch_def Let_def split: prod.splits sum.splits option.splits)

theorem similaritySearch_propagates_init_error_witness:
  "vectorStore (seededStore\<lparr>vectorStore := None\<rparr>) = None
   \<and> fst (init brokenLoad (seededStore\<lparr>vectorStore := None\<rparr>)) = Inl (Error ''cannot read hnswlib.index'')
   \<and> fst (similaritySearch brokenLoad (seededStore\<lparr>vectorStore := None\<rparr>) ''food expenses'' 5)
       = Inl (Error ''cannot read hnswlib.index'')"
proof -
  have h1: "vectorStore (seededStore\<lparr>vectorStore := None\<rparr>) = None" by simp
  have h2: "fst (init brokenLoad (seededStore\<lparr>vectorStore := None\<rparr>))
              = Inl (Error ''cannot read hnswlib.index'')"
    by (simp add: init_def brokenLoad_def workingIndex_def seededStore_def)
  show ?thesis
    using h2 similaritySearch_propagates_init_error [OF h1 h2] by simp
qed

lemma init_attaches_saved_index:
  assumes "init env s = (Inr (), s1)"
  shows "\<exists>content. vectorStore s1 = Some \<lparr>address = allocated s, documents = content\<rparr>
           \<and> indexFile s1 = Some content \<and> allocated s1 = Suc (allocated s)"
  using assms by (auto simp: init_def attach_def split: option.splits)

lemma init_again:
  assumes "vectorStore s1 = Some \<lparr>address = a, documents = content\<rparr>"
    and "indexFile s1 = Some content" and "allocated s1 = Suc a"
  shows "indexFile (snd (init env' s1)) = Some content
       \<and> map_option documents (vectorStore (snd (init env' s1))) = Some content
       \<and> (fst (init env' s1) = Inr () \<longrightarrow>
             vectorStore (snd (init env' s1)) = Some \<lparr>address = Suc a, documents = content\<rparr>)
       \<and> (fst (init env' s1) \<noteq> Inr () \<longrightarrow> snd (init env' s1) = s1)"
  using assms by (cases "load env' content") (simp_all add: init_def attach_def)

text \<open>
  Claim C6, as the code has it. \<open>init\<close> has no guard: after a call that succeeded, a
  second call loads the saved index again. When that load succeeds, the handle attached
  afterwards is a new object, different from the one attached before, that holds the
  same documents; when it throws, the service is left as it was. In both cases the
  saved index is unchanged, so no sentinel is added. A call that finds the file
  \<open>hnswlib.index\<close> never writes the saved index and attaches no other documents than
  the saved ones; only a call that does not find the file creates an index, which then
  holds the sentinel document and nothing else, and is saved.
\<close>

theorem init_again_reloads:
  "(init env s = (Inr (), s1) \<longrightarrow>
      indexFile (snd (init env' s1)) = indexFile s1
      \<and> map_option documents (vectorStore (snd (init env' s1)))
          = map_option documents (vectorStore s1)
      \<and> map_option documents (vectorStore s1) = indexFile s1
      \<and> indexFile s1 \<noteq> None
      \<and> (fst (init env' s1) = Inr () \<longrightarrow> vectorStore (snd (init env' s1)) \<noteq> vectorStore s1)
      \<and> (fst (init env' s1) \<noteq> Inr () \<longrightarrow> snd (init env' s1) = s1))
   \<and> (indexFile s = Some saved \<longrightarrow>
        indexFile (snd (init env s)) = Some saved
        \<and> map_option documents (vectorStore (snd (init env s)))
            \<in> {map_option documents (vectorStore s), Some saved})
   \<and> (indexFile s = None \<and> fst (init env s) = Inr () \<longrightarrow>
        indexFile (snd (init env s)) = Some [dummyDoc]
        \<and> map_option documents (vectorStore (snd (init env s))) = Some [dummyDoc]
        \<and> sentinels [dummyDoc] = 1)"
proof -
  have a: "init env s = (Inr (), s1) \<longrightarrow>
      indexFile (snd (init env' s1)) = indexFile s1
      \<and> map_option documents (vectorStore (snd (init env' s1)))
          = map_option documents (vectorStore s1)
      \<and> map_option documents (vectorStore s1) = indexFile s1
      \<and> indexFile s1 \<noteq> None
      \<and> (fst (init env' s1) = Inr () \<longrightarrow> vectorStore (snd (init env' s1)) \<noteq> vectorStore s1)
      \<and> (fst (init env' s1) \<noteq> Inr () \<longrightarrow> snd (init env' s1) = s1)"
  proof
    assume ok: "init env s = (Inr (), s1)"
    obtain content where h: "vectorStore s1 = Some \<lparr>address = allocated s, documents = content\<rparr>"
        "indexFile s1 = Some content" "allocated s1 = Suc (allocated s)"
      using init_attaches_saved_index [OF ok] by blast
    show "indexFile (snd (init env' s1)) = indexFile s1
      \<and> map_option documents (vectorStore (snd (init env' s1)))
          = map_option documents (vectorStore s1)
      \<and> map_option documents (vectorStore s1) = indexFile s1
      \<and> indexFile s1 \<noteq> None
      \<and> (fst (init env' s1) = Inr () \<longrightarrow> vectorStore (snd (init env' s1)) \<noteq> vectorStore s1)
      \<and> (fst (init env' s1) \<noteq> Inr () \<longrightarrow> snd (init env' s1) = s1)"
      using h init_again [OF h, of env'] by auto
  qed
  have b: "indexFile s = Some saved \<longrightarrow>
        indexFile (snd (init env s)) = Some saved
        \<and> map_option documents (vectorStore (snd (init env s)))
            \<in> {map_option documents (vectorStore s), Some saved}"
    by (auto simp: init_def attach_def split: option.splits)
  have c: "indexFile s = None \<and> fst (init env s) = Inr () \<longrightarrow>
        indexFile (snd (init env s)) = Some [dummyDoc]
        \<and> map_option documents (vectorStore (snd (init env s))) = Some [dummyDoc]
        \<and> sentinels [dummyDoc] = 1"
    by (auto simp: init_def attach_def sentinels_def dummyDoc_def initialization_def
        split: option.splits)
  show ?thesis using a b c by blast
qed

theorem init_again_reloads_witness:
  "init workingIndex emptyStore = (Inr (), seededStore)
   \<and> indexFile emptyStore = None
   \<and> indexFile seededStore = Some [dummyDoc]
   \<and> map_option documents (vectorStore seededStore) = Some [dummyDoc]
   \<and> fst (init brokenLoad seededStore) = Inl (Error ''cannot read hnswlib.index'')
   \<and> snd (init brokenLoad seededStore) = seededStore
   \<and> indexFile (snd (init workingIndex seededStore)) = Some [dummyDoc]
   \<and> map_option documents (vectorStore (snd (init workingIndex seededStore))) = Some [dummyDoc]
   \<and> sentinels [dummyDoc] = 1"
proof -
  have h1: "init workingIndex emptyStore = (Inr (), seededStore)"
    by (simp add: init_def attach_def workingIndex_def emptyStore_def seededStore_def)
  have h2: "indexFile emptyStore = None" by (simp add: emptyStore_def)
  have h3: "fst (init brokenLoad seededStore) = Inl (Error ''cannot read hnswlib.index'')"
    by (simp add: init_def brokenLoad_def workingIndex_def seededStore_def)
  have h4: "fst (init workingIndex emptyStore) = Inr ()" using h1 by simp
  have h5: "indexFile seededStore = Some [dummyDoc]" by (simp add: seededStore_def)
  show ?thesis
    using h1 h2 h3 h4 h5
      init_again_reloads [of workingIndex emptyStore seededStore brokenLoad "[dummyDoc]"]
      init_again_reloads [of workingIndex emptyStore seededStore workingIndex "[dummyDoc]"]
    by simp
qed

text \<open>
  Claim C6 as the specification states it has the second call produce the same
  attached index handle. After a first call that created and saved the index, a second
  call that succeeds attaches another object: the handle at address 1 replaces the
  handle at address 0.
\<close>

theorem init_again_attaches_new_handle:
  "init workingIndex emptyStore = (Inr (), seededStore)
   \<and> init workingIndex seededStore = (Inr (), reloadedStore)
   \<and> vectorStore seededStore = Some \<lparr>address = 0, documents = [dummyDoc]\<rparr>
   \<and> vectorStore reloadedStore = Some \<lparr>address = 1, documents = [dummyDoc]\<rparr>
   \<and> vectorStore reloadedStore \<noteq> vectorStore seededStore"
  by (simp add: init_def attach_def workingIndex_def emptyStore_def seededStore_def
      reloadedStore_def)

section \<open>Properties of the category taxonomy\<close>















section \<open>Properties of the expense schema\<close>

lemma validCategories_iff: "c \<in> set (validCategories T) \<longleftrightarrow> map_of T c \<noteq> None"
  by (simp add: validCategories_def map_of_eq_None_iff)

lemma validCategories_Nil: "validCategories T = [] \<longleftrightarrow> T = []"
  by (simp add: validCategories_def)

lemma validate_empty_iff:
  "T \<noteq> [] \<Longrightarrow>
   validate T doc = [] \<longleftrightarrow>
     requiredString (amount doc) \<and> requiredString (response doc)
     \<and> category doc \<noteq> Some [] \<and> inTaxonomy T doc"
  by (auto simp: validate_def inTaxonomy_def validCategories_iff validCategories_Nil
      requiredString_def requiredArray_def validator_def validSubcategories_def
      split: option.splits)

text \<open>
  Claim C3, as the code has it. The schema also requires \<open>amount\<close>, \<open>category\<close> and
  \<open>response\<close> to be non-empty strings, and it checks the category against the keys of
  the taxonomy only when the taxonomy has a key. For a taxonomy that is not empty and a
  candidate whose amount and response are present and not empty and whose category is
  not the empty string, and while the write to the store itself does not fail, \<open>save\<close> succeeds, appending the record, if and only
  if the category is a key of the taxonomy and every subcategory is a member of its
  entry. Otherwise \<open>save\<close> throws the validation error and the collection is unchanged,
  whatever the store would do: the error names the path \<open>category\<close> when the category is
  not a key, and the path \<open>subCategory\<close> when the category is a key and a subcategory is
  not a member.
\<close>

theorem save_succeeds_iff_in_taxonomy:
  assumes "T \<noteq> []"
    and "requiredString (amount doc)" and "requiredString (response doc)"
    and "category doc \<noteq> Some []"
  shows "(save T None coll doc = (Inr (), coll @ [doc]) \<longleftrightarrow> inTaxonomy T doc)
       \<and> (\<not> inTaxonomy T doc \<longrightarrow>
            save T write coll doc = (Inl (ValidationError (validate T doc)), coll)
            \<and> (\<not> categoryKnown T doc \<longrightarrow>
                  (''category'', Required) \<in> set (validate T doc)
                  \<or> (''category'', Enum) \<in> set (validate T doc))
            \<and> (categoryKnown T doc \<longrightarrow> (''subCategory'', UserDefined) \<in> set (validate T doc)))"
proof -
  have v: "validate T doc = [] \<longleftrightarrow> inTaxonomy T doc"
    using assms by (simp add: validate_empty_iff)
  have a: "save T None coll doc = (Inr (), coll @ [doc]) \<longleftrightarrow> inTaxonomy T doc"
    using v by (auto simp: save_def)
  have b: "\<not> inTaxonomy T doc \<longrightarrow>
             save T write coll doc = (Inl (ValidationError (validate T doc)), coll)"
    using v by (simp add: save_def)
  have c: "\<not> categoryKnown T doc \<longrightarrow>
                  (''category'', Required) \<in> set (validate T doc)
                  \<or> (''category'', Enum) \<in> set (validate T doc)"
    using assms(1)
    by (auto simp: validate_def categoryKnown_def validCategories_iff validCategories_Nil
        requiredString_def split: option.splits)
  have d: "\<not> inTaxonomy T doc \<longrightarrow> categoryKnown T doc \<longrightarrow>
             (''subCategory'', UserDefined) \<in> set (validate T doc)"
    by (auto simp: validate_def categoryKnown_def inTaxonomy_def requiredArray_def validator_def
        validSubcategories_def split: option.splits)
  show ?thesis using a b c d by blast
qed

theorem save_succeeds_iff_in_taxonomy_witness:
  "sampleTaxonomy \<noteq> []
   \<and> requiredString (amount lunch) \<and> requiredString (response lunch)
   \<and> inTaxonomy sampleTaxonomy lunch
   \<and> save sampleTaxonomy None [] lunch = (Inr (), [lunch])
   \<and> \<not> inTaxonomy sampleTaxonomy (lunch\<lparr>subCategory := [''Fuel'']\<rparr>)
   \<and> save sampleTaxonomy None [] (lunch\<lparr>subCategory := [''Fuel'']\<rparr>)
       = (Inl (ValidationError [(''subCategory'', UserDefined)]), [])
   \<and> \<not> inTaxonomy sampleTaxonomy (lunch\<lparr>category := Some ''Travel''\<rparr>)
   \<and> save sampleTaxonomy None [] (lunch\<lparr>category := Some ''Travel''\<rparr>)
       = (Inl (ValidationError [(''category'', Enum), (''subCategory'', UserDefined)]), [])"
proof -
  have h0: "sampleTaxonomy \<noteq> []" by (simp add: sampleTaxonomy_def)
  have h1: "requiredString (amount lunch)" and h2: "requiredString (response lunch)"
    and h3: "category lunch \<noteq> Some []"
    by (simp_all add: lunch_def requiredString_def)
  have i: "inTaxonomy sampleTaxonomy lunch"
    by (simp add: inTaxonomy_def sampleTaxonomy_def lunch_def)
  have f1: "requiredString (amount (lunch\<lparr>subCategory := [''Fuel'']\<rparr>))"
    and f2: "requiredString (response (lunch\<lparr>subCategory := [''Fuel'']\<rparr>))"
    and f3: "category (lunch\<lparr>subCategory := [''Fuel'']\<rparr>) \<noteq> Some []"
    by (simp_all add: lunch_def requiredString_def)
  have fi: "\<not> inTaxonomy sampleTaxonomy (lunch\<lparr>subCategory := [''Fuel'']\<rparr>)"
    by (simp add: inTaxonomy_def sampleTaxonomy_def lunch_def)
  have fv: "validate sampleTaxonomy (lunch\<lparr>subCategory := [''Fuel'']\<rparr>)
              = [(''subCategory'', UserDefined)]"
    by (simp add: validate_def sampleTaxonomy_def lunch_def requiredString_def requiredArray_def
        validator_def validSubcategories_def validCategories_def)
  have g1: "requiredString (amount (lunch\<lparr>category := Some ''Travel''\<rparr>))"
    and g2: "requiredString (response (lunch\<lparr>category := Some ''Travel''\<rparr>))"
    and g3: "category (lunch\<lparr>category := Some ''Travel''\<rparr>) \<noteq> Some []"
    by (simp_all add: lunch_def requiredString_def)
  have gi: "\<not> inTaxonomy sampleTaxonomy (lunch\<lparr>category := Some ''Travel''\<rparr>)"
    by (simp add: inTaxonomy_def sampleTaxonomy_def lunch_def)
  have gv: "validate sampleTaxonomy (lunch\<lparr>category := Some ''Travel''\<rparr>)
              = [(''category'', Enum), (''subCategory'', UserDefined)]"
    by (simp add: validate_def sampleTaxonomy_def lunch_def requiredString_def requiredArray_def
        validator_def validSubcategories_def validCategories_def)
  show ?thesis
    using h0 h1 h2 i fi fv gi gv
      save_succeeds_iff_in_taxonomy [OF h0 h1 h2 h3, of "[]" None]
      save_succeeds_iff_in_taxonomy [OF h0 f1 f2 f3, of "[]" None]
      save_succeeds_iff_in_taxonomy [OF h0 g1 g2 g3, of "[]" None]
    by simp
qed

text \<open>
  Claim C3 as the specification states it makes the two taxonomy conditions alone
  decide. A candidate that meets both and has no \<open>response\<close>, or an empty one, is
  rejected by the \<open>required\<close> validator of that path.
\<close>

theorem save_rejects_missing_response:
  "inTaxonomy sampleTaxonomy (lunch\<lparr>response := None\<rparr>)
   \<and> save sampleTaxonomy None [] (lunch\<lparr>response := None\<rparr>)
       = (Inl (ValidationError [(''response'', Required)]), [])
   \<and> inTaxonomy sampleTaxonomy (lunch\<lparr>response := Some []\<rparr>)
   \<and> save sampleTaxonomy None [] (lunch\<lparr>response := Some []\<rparr>)
       = (Inl (ValidationError [(''response'', Required)]), [])"
  by (simp add: inTaxonomy_def save_def validate_def sampleTaxonomy_def lunch_def
      requiredString_def requiredArray_def validator_def validSubcategories_def
      validCategories_def)




section \<open>Properties of the request pipeline\<close>

text \<open>
  Claim C8, as the code has it. The reply of the intent chain is lower-cased and
  trimmed; the token \<open>add\<close> selects the add case, the token \<open>retrieve\<close> the retrieve
  case, and for every other token \<open>processUserInput\<close> does nothing: it reports no
  error and leaves the state as it is.
\<close>

theorem processUserInput_dispatch:
  assumes "intentChain lenv input = Inr t"
  shows "(trim (toLowerCase t) = ''add'' \<longrightarrow>
            processUserInput T lenv env renv input st = addCase T lenv env renv input st)
       \<and> (trim (toLowerCase t) = ''retrieve'' \<longrightarrow>
            processUserInput T lenv env renv input st = retrieveCase lenv env input st)
       \<and> (trim (toLowerCase t) \<noteq> ''add'' \<and> trim (toLowerCase t) \<noteq> ''retrieve'' \<longrightarrow>
            processUserInput T lenv env renv input st = (NothingDone, st))"
  using assms by (simp add: processUserInput_def Let_def)

theorem processUserInput_dispatch_witness:
  "intentChain (sampleLlm '' Retrieve '' noSubcategory) ''show food expenses'' = Inr '' Retrieve ''
   \<and> trim (toLowerCase '' Retrieve '') = ''retrieve''
   \<and> processUserInput sampleTaxonomy (sampleLlm '' Retrieve '' noSubcategory) workingIndex
        sampleRender ''show food expenses'' freshApp
       = retrieveCase (sampleLlm '' Retrieve '' noSubcategory) workingIndex
           ''show food expenses'' freshApp
   \<and> intentChain (sampleLlm ''update'' noSubcategory) ''show food expenses'' = Inr ''update''
   \<and> trim (toLowerCase ''update'') = ''update''
   \<and> processUserInput sampleTaxonomy (sampleLlm ''update'' noSubcategory) workingIndex
        sampleRender ''show food expenses'' freshApp = (NothingDone, freshApp)"
proof -
  have h1: "intentChain (sampleLlm '' Retrieve '' noSubcategory) ''show food expenses''
              = Inr '' Retrieve ''" by (simp add: sampleLlm_def)
  have n1: "trim (toLowerCase '' Retrieve '') = ''retrieve''" by code_simp
  have h2: "intentChain (sampleLlm ''update'' noSubcategory) ''show food expenses''
              = Inr ''update''" by (simp add: sampleLlm_def)
  have n2: "trim (toLowerCase ''update'') = ''update''" by code_simp
  show ?thesis
    using h1 n1 h2 n2
      processUserInput_dispatch [OF h1, of sampleTaxonomy workingIndex sampleRender freshApp]
      processUserInput_dispatch [OF h2, of sampleTaxonomy workingIndex sampleRender freshApp]
    by simp
qed

text \<open>
  Claim C8 as the specification states it has a token other than \<open>add\<close> and \<open>retrieve\<close>
  raise a classification failure that is reported. For the reply \<open>delete\<close> the function
  reports nothing and changes nothing.
\<close>

theorem processUserInput_ignores_unknown_intent:
  "processUserInput sampleTaxonomy (sampleLlm ''delete'' noSubcategory) workingIndex
     sampleRender ''delete my last expense'' freshApp = (NothingDone, freshApp)"
proof -
  have n: "trim (toLowerCase ''delete'') = ''delete''" by code_simp
  show ?thesis using n by (simp add: processUserInput_def sampleLlm_def)
qed

end
